theory Spec2Isabelle
  imports Main
begin

section \<open>Python values reaching the option constructors\<close>

text \<open>
  \<^verbatim>\<open>core.py\<close> is dynamically typed: \<^verbatim>\<open>ExpirySet.__init__\<close> is annotated with
  \<^verbatim>\<open>Union[int, datetime, timedelta, None]\<close> but receives whatever the caller passes and
  checks it with \<^verbatim>\<open>isinstance\<close>. The values are modelled as a tagged union.

  A \<^verbatim>\<open>timedelta\<close> is kept as its exact length in microseconds (the class stores days,
  seconds and microseconds, all integers), a \<^verbatim>\<open>datetime\<close> as the instant it denotes,
  in microseconds since the Unix epoch. A \<^verbatim>\<open>float\<close> is a binary64 number, kept as the
  pair of an integer significand and a binary exponent: \<open>PyFloat m e\<close> is \<open>m * 2 ^ e\<close>.
\<close>

datatype pyfloat = PyFloat (mant: int) (expo: int)

datatype pyval =
    PyNone
  | PyBool bool
  | PyInt int
  | PyTimedelta int
  | PyDatetime int
  | PyFloatV pyfloat
  | PyStr string

datatype pytype = T_NoneType | T_bool | T_int | T_timedelta | T_datetime | T_float | T_str

fun type_of :: "pyval \<Rightarrow> pytype" where
  "type_of PyNone = T_NoneType"
| "type_of (PyBool b) = T_bool"
| "type_of (PyInt i) = T_int"
| "type_of (PyTimedelta us) = T_timedelta"
| "type_of (PyDatetime us) = T_datetime"
| "type_of (PyFloatV x) = T_float"
| "type_of (PyStr s) = T_str"

text \<open>\<^verbatim>\<open>bool\<close> is a subclass of \<^verbatim>\<open>int\<close>; the other classes here are unrelated.\<close>

definition issubclass :: "pytype \<Rightarrow> pytype \<Rightarrow> bool" where
  "issubclass c d = (c = d \<or> (c = T_bool \<and> d = T_int))"

text \<open>\<^verbatim>\<open>isinstance(value, (t1, ..., tn))\<close> with a tuple of classes.\<close>

definition isinstance :: "pyval \<Rightarrow> pytype list \<Rightarrow> bool" where
  "isinstance v ts = list_ex (issubclass (type_of v)) ts"

subsection \<open>Binary64 arithmetic used by the time conversions\<close>

text \<open>
  \<^verbatim>\<open>timedelta.total_seconds()\<close> is the true division of the integer microsecond count by
  \<^verbatim>\<open>10**6\<close>, and \<^verbatim>\<open>datetime.timestamp()\<close> is the same quotient for the offset from
  the epoch. Python rounds the quotient of two integers correctly: to the nearest binary64
  number, ties to the even significand. The numbers met here lie far inside the normal
  range of binary64 (a \<^verbatim>\<open>timedelta\<close> is below \<open>10 ^ 9\<close> days and a multiple of a
  microsecond), so the exponent is not bounded in the model.
\<close>

text \<open>\<^verbatim>\<open>n.bit_length()\<close> of a positive integer; 0 for the others.\<close>

function bit_length :: "int \<Rightarrow> int" where
  "bit_length n = (if n \<le> 0 then 0 else 1 + bit_length (n div 2))"
  by pat_completeness auto
termination
  by (relation "measure nat") auto

declare bit_length.simps [simp del]

text \<open>The integer nearest to \<open>num / den\<close> for \<open>0 \<le> num\<close>, \<open>0 < den\<close>, ties to even.\<close>

definition round_half_even :: "int \<Rightarrow> int \<Rightarrow> int" where
  "round_half_even num den =
     (let q = num div den; r = num mod den
      in if den < 2 * r \<or> (2 * r = den \<and> odd q) then q + 1 else q)"

text \<open>
  \<open>round_quotient n d\<close> is \<open>n / d\<close> (for \<open>0 < d\<close>) rounded to 53 significant bits.
  With \<open>k\<close> the difference of the bit lengths, \<open>|n| / d\<close> lies strictly between
  \<open>2 ^ (k - 1)\<close> and \<open>2 ^ (k + 1)\<close>, so the exponent that puts the significand in
  \<open>[2 ^ 52, 2 ^ 53)\<close> is \<open>k - 53\<close> or \<open>k - 52\<close>.
\<close>

definition round_quotient :: "int \<Rightarrow> int \<Rightarrow> pyfloat" where
  "round_quotient n d =
     (if n = 0 then PyFloat 0 0
      else
        let a = \<bar>n\<bar>;
            k = bit_length a - bit_length d;
            e1 = k - 53;
            e = (if a * 2 ^ nat (- e1) < 2 ^ 53 * (d * 2 ^ nat e1) then e1 else e1 + 1);
            m = round_half_even (a * 2 ^ nat (- e)) (d * 2 ^ nat e)
        in PyFloat (sgn n * m) e)"

text \<open>
  \<^verbatim>\<open>td.total_seconds()\<close> and \<^verbatim>\<open>dt.timestamp()\<close>, from the microsecond count. (A
  \<^verbatim>\<open>datetime\<close> here is one for which \<^verbatim>\<open>timestamp()\<close> returns; the method can fail on
  a naive \<^verbatim>\<open>datetime\<close> outside the range of the platform's local time.)
\<close>

definition total_seconds :: "int \<Rightarrow> pyfloat" where
  "total_seconds us = round_quotient us 1000000"

definition timestamp :: "int \<Rightarrow> pyfloat" where
  "timestamp us = round_quotient us 1000000"

text \<open>\<^verbatim>\<open>x * 1000\<close>: the exact product of the float and the integer, rounded once.\<close>

definition float_times :: "pyfloat \<Rightarrow> int \<Rightarrow> pyfloat" where
  "float_times x c =
     round_quotient (mant x * c * 2 ^ nat (expo x)) (2 ^ nat (- expo x))"

text \<open>\<^verbatim>\<open>int(x)\<close> of a float drops the fraction: it rounds toward zero.\<close>

definition int_of_float :: "pyfloat \<Rightarrow> int" where
  "int_of_float x =
     (if 0 \<le> expo x then mant x * 2 ^ nat (expo x)
      else sgn (mant x) * (\<bar>mant x\<bar> div 2 ^ nat (- expo x)))"

subsection \<open>Truth value and text of a value\<close>

text \<open>The truth value that \<^verbatim>\<open>if value\<close> tests.\<close>

fun truthy :: "pyval \<Rightarrow> bool" where
  "truthy PyNone = False"
| "truthy (PyBool b) = b"
| "truthy (PyInt i) = (i \<noteq> 0)"
| "truthy (PyTimedelta us) = (us \<noteq> 0)"
| "truthy (PyDatetime us) = True"
| "truthy (PyFloatV x) = (mant x \<noteq> 0)"
| "truthy (PyStr s) = (s \<noteq> [])"

text \<open>
  \<^verbatim>\<open>str(n)\<close> of an integer: its decimal digits, with a minus sign below zero. (The
  interpreter's limit on the length of the text, 4300 digits unless configured, is left
  out.)
\<close>

function digits :: "int \<Rightarrow> string" where
  "digits n =
     (if n < 10 then [''0123456789'' ! nat n]
      else digits (n div 10) @ [''0123456789'' ! nat (n mod 10)])"
  by pat_completeness auto
termination
  by (relation "measure nat") auto

declare digits.simps [simp del]

definition str_int :: "int \<Rightarrow> string" where
  "str_int i = (if i < 0 then CHR ''-'' # digits (- i) else digits i)"

text \<open>
  \<^verbatim>\<open>str(value)\<close>. The constructor prints integers, booleans and \<^verbatim>\<open>None\<close> only
  (lemma \<open>normalize_printable\<close> below); the text forms of the time classes and of floats
  are not needed and are left empty.
\<close>

fun str :: "pyval \<Rightarrow> string" where
  "str PyNone = ''None''"
| "str (PyBool b) = (if b then ''True'' else ''False'')"
| "str (PyInt i) = str_int i"
| "str (PyStr s) = s"
| "str (PyTimedelta us) = []"
| "str (PyDatetime us) = []"
| "str (PyFloatV x) = []"

section \<open>Option primitives of SET (\<^verbatim>\<open>pybushka/async_commands/core.py\<close>)\<close>

datatype ConditionalSet = ONLY_IF_EXISTS | ONLY_IF_DOES_NOT_EXIST

datatype ExpiryType = SEC | MILLSEC | UNIX_SEC | UNIX_MILLSEC | KEEP_TTL

text \<open>
  Each member of \<^verbatim>\<open>ExpiryType\<close> has a tuple as its value: an index and the typing
  annotation of the values it accepts, \<^verbatim>\<open>Union[...]\<close> or \<^verbatim>\<open>Type[None]\<close>.
  \<^verbatim>\<open>typing.get_args\<close> returns the classes in the brackets.
\<close>

datatype typing = UnionT "pytype list" | TypeT pytype

fun ExpiryType_value :: "ExpiryType \<Rightarrow> nat \<times> typing" where
  "ExpiryType_value SEC = (0, UnionT [T_int, T_timedelta])"
| "ExpiryType_value MILLSEC = (1, UnionT [T_int, T_timedelta])"
| "ExpiryType_value UNIX_SEC = (2, UnionT [T_int, T_datetime])"
| "ExpiryType_value UNIX_MILLSEC = (3, UnionT [T_int, T_datetime])"
| "ExpiryType_value KEEP_TTL = (4, TypeT T_NoneType)"

fun get_args :: "typing \<Rightarrow> pytype list" where
  "get_args (UnionT ts) = ts"
| "get_args (TypeT t) = [t]"

datatype error = ValueError

record ExpirySet =
  expiry_type :: ExpiryType
  cmd_arg :: string
  value' :: "string option"

text \<open>
  The branch of \<^verbatim>\<open>set_expiry_type_and_value\<close> taken for the expiry type: the keyword
  it stores in \<^verbatim>\<open>cmd_arg\<close> and the value after the conversion of that branch.
\<close>

definition expiry_branch :: "ExpiryType \<Rightarrow> pyval \<Rightarrow> string \<times> pyval" where
  "expiry_branch et v =
     (case et of
        SEC \<Rightarrow>
          (''EX'',
           case v of PyTimedelta us \<Rightarrow> PyInt (int_of_float (total_seconds us)) | _ \<Rightarrow> v)
      | MILLSEC \<Rightarrow>
          (''PX'',
           case v of PyTimedelta us \<Rightarrow> PyInt (int_of_float (float_times (total_seconds us) 1000))
                   | _ \<Rightarrow> v)
      | UNIX_SEC \<Rightarrow>
          (''EXAT'',
           case v of PyDatetime us \<Rightarrow> PyInt (int_of_float (timestamp us)) | _ \<Rightarrow> v)
      | UNIX_MILLSEC \<Rightarrow>
          (''PXAT'',
           case v of PyDatetime us \<Rightarrow> PyInt (int_of_float (float_times (timestamp us) 1000))
                   | _ \<Rightarrow> v)
      | KEEP_TTL \<Rightarrow> (''KEEPTTL'', v))"

text \<open>
  \<^verbatim>\<open>ExpirySet(expiry_type, value)\<close>: \<^verbatim>\<open>__init__\<close> only calls
  \<^verbatim>\<open>set_expiry_type_and_value\<close>, which raises \<^verbatim>\<open>ValueError\<close> on a value of the
  wrong class before it assigns any attribute.
\<close>

definition set_expiry_type_and_value :: "ExpiryType \<Rightarrow> pyval \<Rightarrow> error + ExpirySet" where
  "set_expiry_type_and_value et v =
     (if \<not> isinstance v (get_args (snd (ExpiryType_value et))) then Inl ValueError
      else
        let (kw, v') = expiry_branch et v
        in Inr \<lparr>expiry_type = et, cmd_arg = kw,
                value' = (if truthy v' then Some (str v') else None)\<rparr>)"

definition get_cmd_args :: "ExpirySet \<Rightarrow> string list" where
  "get_cmd_args e = (case value' e of None \<Rightarrow> [cmd_arg e] | Some s \<Rightarrow> [cmd_arg e, s])"

text \<open>
  The keyword that the docstring of \<^verbatim>\<open>ExpiryType\<close> gives for each member
  ("Equivalent to \<^verbatim>\<open>EX\<close> in the Redis API", and so on).
\<close>

fun redis_api :: "ExpiryType \<Rightarrow> string" where
  "redis_api SEC = ''EX''"
| "redis_api MILLSEC = ''PX''"
| "redis_api UNIX_SEC = ''EXAT''"
| "redis_api UNIX_MILLSEC = ''PXAT''"
| "redis_api KEEP_TTL = ''KEEPTTL''"

text \<open>
  Following the words of the specification, for comparison with the code: the integer
  count of whole units in a length of \<open>us\<close> microseconds, the fraction of a unit dropped
  (\<open>per\<close> microseconds make one unit).
\<close>

definition truncated_units :: "int \<Rightarrow> int \<Rightarrow> int" where
  "truncated_units us per = sgn us * (\<bar>us\<bar> div per)"

section \<open>Command facades of \<^verbatim>\<open>CoreCommands\<close>\<close>

text \<open>
  \<^verbatim>\<open>RequestType\<close> comes from the protobuf module; the facades use three of its members.
  \<^verbatim>\<open>self.execute_command\<close> is the dispatch adapter that the client class provides: the
  facades take it as their first argument and return what it returns (\<^verbatim>\<open>return await\<close>),
  so its result type \<open>'r\<close> is left open; it may hold a value, a failure or a state change.
\<close>

datatype RequestType = SetString | GetString | CustomCommand

text \<open>
  \<^verbatim>\<open>CoreCommands.set\<close>. A member of the plain \<^verbatim>\<open>Enum\<close> \<^verbatim>\<open>ConditionalSet\<close> is
  always true in \<^verbatim>\<open>if conditional_set\<close>, \<^verbatim>\<open>None\<close> is false.
\<close>

definition set_cmd ::
  "(RequestType \<Rightarrow> string list \<Rightarrow> 'r) \<Rightarrow> string \<Rightarrow> string \<Rightarrow> ConditionalSet option
     \<Rightarrow> ExpirySet option \<Rightarrow> bool \<Rightarrow> 'r" where
  "set_cmd execute_command key val conditional_set expiry return_old_value =
     (let args = [key, val];
          args = (case conditional_set of
                    None \<Rightarrow> args
                  | Some c \<Rightarrow>
                      (let args = (if c = ONLY_IF_EXISTS then args @ [''XX''] else args);
                           args = (if c = ONLY_IF_DOES_NOT_EXIST then args @ [''NX''] else args)
                       in args));
          args = (if return_old_value then args @ [''GET''] else args);
          args = (case expiry of None \<Rightarrow> args | Some e \<Rightarrow> args @ get_cmd_args e)
      in execute_command SetString args)"

definition get :: "(RequestType \<Rightarrow> string list \<Rightarrow> 'r) \<Rightarrow> string \<Rightarrow> 'r" where
  "get execute_command key = execute_command GetString [key]"

definition custom_command :: "(RequestType \<Rightarrow> string list \<Rightarrow> 'r) \<Rightarrow> string list \<Rightarrow> 'r" where
  "custom_command execute_command command_args = execute_command CustomCommand command_args"

section \<open>Index commands (\<^verbatim>\<open>glide/async_commands/server_modules/ft.py\<close>)\<close>

text \<open>\<^verbatim>\<open>TEncodable\<close> is \<^verbatim>\<open>Union[str, bytes]\<close>.\<close>

datatype TEncodable = Str string | Bytes string

text \<open>
  The classes \<^verbatim>\<open>Field\<close> and \<^verbatim>\<open>FtCreateOptions\<close> live in
  \<^verbatim>\<open>ft_create_options.py\<close>, outside the sources at hand; \<^verbatim>\<open>ft.py\<close> uses nothing of
  them but \<^verbatim>\<open>toArgs()\<close>. An object is represented by the list its \<^verbatim>\<open>toArgs()\<close>
  returns. An options object is taken to be true in \<^verbatim>\<open>if options\<close>, as an instance
  of a class without \<^verbatim>\<open>__bool__\<close> or \<^verbatim>\<open>__len__\<close> is.
\<close>

datatype Field = Field (Field_toArgs: "TEncodable list")

datatype FtCreateOptions = FtCreateOptions (FtCreateOptions_toArgs: "TEncodable list")

text \<open>
  Modelled from the spec: the constants of \<^verbatim>\<open>CommandNames\<close> and
  \<^verbatim>\<open>FtCreateKeywords\<close> (\<^verbatim>\<open>ft_constants.py\<close>) are outside the sources at hand; their
  values are the command keywords and the schema marker of the wire formats in section 6
  of the specification.
\<close>

definition FT_CREATE :: TEncodable where
  "FT_CREATE = Str ''FT.CREATE''"

definition FT_DROPINDEX :: TEncodable where
  "FT_DROPINDEX = Str ''FT.DROPINDEX''"

definition FT_ALIASADD :: TEncodable where
  "FT_ALIASADD = Str ''FT.ALIASADD''"

definition FT_ALIASDEL :: TEncodable where
  "FT_ALIASDEL = Str ''FT.ALIASDEL''"

definition FT_ALIASUPDATE :: TEncodable where
  "FT_ALIASUPDATE = Str ''FT.ALIASUPDATE''"

definition SCHEMA :: TEncodable where
  "SCHEMA = Str ''SCHEMA''"

text \<open>The loop \<^verbatim>\<open>for field in schema: args.extend(field.toArgs())\<close>.\<close>

fun extend_fields :: "TEncodable list \<Rightarrow> Field list \<Rightarrow> TEncodable list" where
  "extend_fields args [] = args"
| "extend_fields args (field # schema) = extend_fields (args @ Field_toArgs field) schema"

text \<open>
  The functions of \<^verbatim>\<open>ft.py\<close> take the client and call its \<^verbatim>\<open>custom_command\<close>
  with the list they built; the client is represented by that method.
\<close>

definition create ::
  "(TEncodable list \<Rightarrow> 'r) \<Rightarrow> TEncodable \<Rightarrow> Field list \<Rightarrow> FtCreateOptions option \<Rightarrow> 'r" where
  "create client_custom_command indexName schema options =
     (let args = [FT_CREATE, indexName];
          args = (case options of None \<Rightarrow> args | Some opts \<Rightarrow> args @ FtCreateOptions_toArgs opts);
          args = (if schema \<noteq> [] then extend_fields (args @ [SCHEMA]) schema else args)
      in client_custom_command args)"

definition dropindex :: "(TEncodable list \<Rightarrow> 'r) \<Rightarrow> TEncodable \<Rightarrow> 'r" where
  "dropindex client_custom_command indexName = client_custom_command [FT_DROPINDEX, indexName]"

definition aliasadd :: "(TEncodable list \<Rightarrow> 'r) \<Rightarrow> TEncodable \<Rightarrow> TEncodable \<Rightarrow> 'r" where
  "aliasadd client_custom_command alias indexName =
     client_custom_command [FT_ALIASADD, alias, indexName]"

definition aliasdel :: "(TEncodable list \<Rightarrow> 'r) \<Rightarrow> TEncodable \<Rightarrow> 'r" where
  "aliasdel client_custom_command alias = client_custom_command [FT_ALIASDEL, alias]"

definition aliasupdate :: "(TEncodable list \<Rightarrow> 'r) \<Rightarrow> TEncodable \<Rightarrow> TEncodable \<Rightarrow> 'r" where
  "aliasupdate client_custom_command alias indexName =
     client_custom_command [FT_ALIASUPDATE, alias, indexName]"

section \<open>Properties of the expiry option\<close>

text \<open>Which values pass the \<^verbatim>\<open>isinstance\<close> check of each expiry type.\<close>

lemma accepted_cases:
  "isinstance v (get_args (snd (ExpiryType_value m))) =
     (case m of
        SEC \<Rightarrow> (case v of PyInt _ \<Rightarrow> True | PyBool _ \<Rightarrow> True | PyTimedelta _ \<Rightarrow> True | _ \<Rightarrow> False)
      | MILLSEC \<Rightarrow> (case v of PyInt _ \<Rightarrow> True | PyBool _ \<Rightarrow> True | PyTimedelta _ \<Rightarrow> True | _ \<Rightarrow> False)
      | UNIX_SEC \<Rightarrow> (case v of PyInt _ \<Rightarrow> True | PyBool _ \<Rightarrow> True | PyDatetime _ \<Rightarrow> True | _ \<Rightarrow> False)
      | UNIX_MILLSEC \<Rightarrow> (case v of PyInt _ \<Rightarrow> True | PyBool _ \<Rightarrow> True | PyDatetime _ \<Rightarrow> True | _ \<Rightarrow> False)
      | KEEP_TTL \<Rightarrow> v = PyNone)"
  by (cases m; cases v) (simp_all add: isinstance_def issubclass_def)

text \<open>Every branch stores the keyword that the docstring of the enumeration gives.\<close>

lemma branch_keyword: "fst (expiry_branch m v) = redis_api m"
  by (cases m) (simp_all add: expiry_branch_def)

text \<open>
  After the branch an accepted value is an integer, a boolean or \<^verbatim>\<open>None\<close>: the only
  values that \<^verbatim>\<open>str\<close> is applied to.
\<close>

lemma normalize_printable:
  assumes "isinstance v (get_args (snd (ExpiryType_value m)))"
  shows "(\<exists>i. snd (expiry_branch m v) = PyInt i) \<or> (\<exists>b. snd (expiry_branch m v) = PyBool b)
           \<or> snd (expiry_branch m v) = PyNone"
  using assms
  by (cases m; cases v) (simp_all add: isinstance_def issubclass_def expiry_branch_def)





text \<open>
  The check is \<^verbatim>\<open>isinstance\<close>, so a boolean passes wherever \<^verbatim>\<open>int\<close> is accepted, and
  its text is what \<^verbatim>\<open>str\<close> gives for it.
\<close>

lemma bool_passes_as_int:
  "set_expiry_type_and_value SEC (PyBool True)
     = Inr \<lparr>expiry_type = SEC, cmd_arg = ''EX'', value' = Some ''True''\<rparr>"
  by (simp add: set_expiry_type_and_value_def isinstance_def issubclass_def expiry_branch_def)

text \<open>
  Claim C10. If an accepted value is converted to the integer 0, the object stores no
  value text and \<^verbatim>\<open>get_cmd_args\<close> returns the keyword alone: under \<^verbatim>\<open>SEC\<close> the
  value 0 gives \<^verbatim>\<open>["EX"]\<close>, not \<^verbatim>\<open>["EX", "0"]\<close>. (\<^verbatim>\<open>KEEP_TTL\<close> accepts \<^verbatim>\<open>None\<close>
  only, which is never converted to 0.)
\<close>

theorem zero_value_omitted:
  assumes "isinstance v (get_args (snd (ExpiryType_value m)))"
    and "snd (expiry_branch m v) = PyInt 0"
  shows "m \<noteq> KEEP_TTL
         \<and> set_expiry_type_and_value m v
             = Inr \<lparr>expiry_type = m, cmd_arg = redis_api m, value' = None\<rparr>
         \<and> get_cmd_args \<lparr>expiry_type = m, cmd_arg = redis_api m, value' = None\<rparr> = [redis_api m]"
proof -
  obtain kw w where b: "expiry_branch m v = (kw, w)"
    by (cases "expiry_branch m v")
  have kw: "kw = redis_api m"
    using branch_keyword [of m v] b by simp
  have "m \<noteq> KEEP_TTL"
    using assms by (cases v) (auto simp: isinstance_def issubclass_def expiry_branch_def)
  then show ?thesis
    using assms b kw by (simp add: set_expiry_type_and_value_def get_cmd_args_def)
qed

theorem zero_value_omitted_witness:
  "isinstance (PyInt 0) (get_args (snd (ExpiryType_value SEC)))
   \<and> snd (expiry_branch SEC (PyInt 0)) = PyInt 0
   \<and> set_expiry_type_and_value SEC (PyInt 0)
       = Inr \<lparr>expiry_type = SEC, cmd_arg = ''EX'', value' = None\<rparr>
   \<and> get_cmd_args \<lparr>expiry_type = SEC, cmd_arg = ''EX'', value' = None\<rparr> = [''EX'']"
proof -
  have a: "isinstance (PyInt 0) (get_args (snd (ExpiryType_value SEC)))"
    by (simp add: isinstance_def issubclass_def)
  have z: "snd (expiry_branch SEC (PyInt 0)) = PyInt 0"
    by (simp add: expiry_branch_def)
  show ?thesis
    using a z zero_value_omitted [OF a z] by simp
qed

subsection \<open>Conversion of durations and instants\<close>

text \<open>
  The two round trips of the specification: five seconds under \<^verbatim>\<open>SEC\<close> and five
  thousand milliseconds under \<^verbatim>\<open>MILLSEC\<close>, each given as a \<^verbatim>\<open>timedelta\<close>.
\<close>

lemma sec_timedelta_5s:
  "map_sum id get_cmd_args (set_expiry_type_and_value SEC (PyTimedelta 5000000))
     = Inr [''EX'', ''5'']"
  by code_simp

lemma millsec_timedelta_5000ms:
  "map_sum id get_cmd_args (set_expiry_type_and_value MILLSEC (PyTimedelta 5000000))
     = Inr [''PX'', ''5000'']"
  by code_simp

text \<open>Half a second under \<^verbatim>\<open>SEC\<close> is converted to 0, so no value token is left.\<close>

lemma sec_timedelta_half_second:
  "map_sum id get_cmd_args (set_expiry_type_and_value SEC (PyTimedelta 500000)) = Inr [''EX'']"
  by code_simp

text \<open>
  Whole seconds. The quotient by \<open>10 ^ 6\<close> is rounded to 53 bits before \<^verbatim>\<open>int\<close> cuts
  it; below \<open>2 ^ 52\<close> microseconds (142 years) the rounding never reaches the next
  integer, so the result is the exact count of whole seconds.
\<close>

lemma bit_length_le: "n < 2 ^ k \<Longrightarrow> bit_length n \<le> int k"
proof (induction k arbitrary: n)
  case 0
  then show ?case by (simp add: bit_length.simps)
next
  case (Suc k)
  show ?case
  proof (cases "n \<le> 0")
    case True
    then show ?thesis by (simp add: bit_length.simps)
  next
    case False
    have "n div 2 < 2 ^ k" using Suc.prems by simp
    then have "bit_length (n div 2) \<le> int k" by (rule Suc.IH)
    then show ?thesis using False by (subst bit_length.simps) simp
  qed
qed

lemma bit_length_million: "bit_length 1000000 = 20"
  by code_simp

lemma round_half_even_bounds:
  fixes a d :: int
  shows "a div d \<le> round_half_even a d" "round_half_even a d \<le> a div d + 1"
  by (simp_all add: round_half_even_def Let_def)

lemma round_half_even_nonneg:
  fixes a d :: int
  assumes "0 \<le> a" "0 < d"
  shows "0 \<le> round_half_even a d"
proof -
  have "0 \<le> a div d" using assms by (simp add: pos_imp_zdiv_nonneg_iff)
  then show ?thesis using round_half_even_bounds(1) [of a d] by linarith
qed

lemma div_less_if_less_times:
  fixes x y d :: int
  assumes "0 < d" "x < y * d"
  shows "x div d < y"
proof (rule ccontr)
  assume "\<not> x div d < y"
  then have "y * d \<le> (x div d) * d"
    using assms(1) by (simp add: mult_right_mono)
  moreover have "(x div d) * d \<le> x"
    using assms(1) pos_mod_sign [of d x] div_mult_mod_eq [of x d] by linarith
  ultimately show False using assms(2) by linarith
qed

text \<open>
  With a scale \<open>p\<close> above the divisor, rounding \<open>a * p / d\<close> to an integer and cutting
  the scale off again gives the integer part of \<open>a / d\<close>.
\<close>

lemma round_then_cut:
  fixes a d p :: int
  assumes a: "0 \<le> a" and d: "0 < d" and p: "d < p"
  shows "round_half_even (a * p) d div p = a div d"
proof -
  let ?q = "a div d"
  let ?m = "round_half_even (a * p) d"
  have p0: "0 < p" using d p by simp
  have qd: "?q * d \<le> a" "a \<le> ?q * d + d - 1"
    using d pos_mod_sign [of d a] pos_mod_bound [of d a] div_mult_mod_eq [of a d] by linarith+
  have "?q * d * p \<le> a * p"
    using qd(1) p0 by (simp add: mult_right_mono)
  then have "(?q * p) * d \<le> a * p"
    by (simp add: ac_simps)
  then have "((?q * p) * d) div d \<le> (a * p) div d"
    using d by (rule zdiv_mono1)
  then have lo: "?q * p \<le> (a * p) div d"
    using d by simp
  have "a * p \<le> (?q * d + d - 1) * p"
    using qd(2) p0 by (simp add: mult_right_mono)
  also have "\<dots> = (?q + 1) * p * d - p"
    by (simp add: algebra_simps)
  also have "\<dots> < ((?q + 1) * p - 1) * d"
    using p by (simp add: algebra_simps)
  finally have hi: "(a * p) div d < (?q + 1) * p - 1"
    using d by (simp add: div_less_if_less_times)
  have m1: "?q * p \<le> ?m" using lo round_half_even_bounds(1) [of "a * p" d] by linarith
  have m2: "?m < (?q + 1) * p" using hi round_half_even_bounds(2) [of "a * p" d] by linarith
  have "?m = p * ?q + (?m - ?q * p)" by simp
  moreover have "0 \<le> ?m - ?q * p" using m1 by simp
  moreover have "?m - ?q * p < p" using m2 by (simp add: algebra_simps)
  ultimately show ?thesis by (rule int_div_pos_eq)
qed

lemma total_seconds_truncates:
  assumes "\<bar>us\<bar> < 2 ^ 52"
  shows "int_of_float (total_seconds us) = truncated_units us 1000000"
proof (cases "us = 0")
  case True
  then show ?thesis
    by (simp add: total_seconds_def round_quotient_def int_of_float_def truncated_units_def)
next
  case False
  define a where "a = \<bar>us\<bar>"
  define e1 where "e1 = bit_length a - 20 - 53"
  define e where
    "e = (if a * 2 ^ nat (- e1) < 2 ^ 53 * (1000000 * 2 ^ nat e1) then e1 else e1 + 1)"
  define m where "m = round_half_even (a * 2 ^ nat (- e)) (1000000 * 2 ^ nat e)"
  have rq: "total_seconds us = PyFloat (sgn us * m) e"
    using False
    by (simp add: total_seconds_def round_quotient_def Let_def bit_length_million
        a_def e1_def e_def m_def)
  have "bit_length a \<le> 52"
    using assms bit_length_le [of a 52] by (simp add: a_def)
  then have e_le: "e \<le> - 20"
    by (simp add: e_def e1_def)
  define k where "k = nat (- e)"
  have k: "20 \<le> k" "nat e = 0" "e < 0"
    using e_le by (simp_all add: k_def)
  have "(2::int) ^ 20 \<le> 2 ^ k"
    using k(1) by (intro power_increasing) simp_all
  then have p: "(1000000::int) < 2 ^ k"
    by simp
  have m_eq: "m = round_half_even (a * 2 ^ k) 1000000"
    by (simp add: m_def k k_def)
  have a0: "0 \<le> a" by (simp add: a_def)
  have mdiv: "m div 2 ^ k = a div 1000000"
    unfolding m_eq using a0 p by (intro round_then_cut) simp_all
  have m0: "0 \<le> m"
    unfolding m_eq using a0 by (intro round_half_even_nonneg) simp_all
  have "int_of_float (total_seconds us) = sgn (sgn us * m) * (\<bar>sgn us * m\<bar> div 2 ^ k)"
    using k by (simp add: rq int_of_float_def k_def)
  also have "\<dots> = sgn us * (m div 2 ^ k)"
    using m0 False by (cases "m = 0") (auto simp: sgn_mult abs_mult sgn_if)
  finally show ?thesis
    by (simp add: mdiv truncated_units_def a_def)
qed

text \<open>
  Under \<^verbatim>\<open>SEC\<close> a \<^verbatim>\<open>timedelta\<close>, and under \<^verbatim>\<open>UNIX_SEC\<close> a \<^verbatim>\<open>datetime\<close>, of
  less than \<open>2 ^ 52\<close> microseconds is converted to its count of whole seconds, the
  fraction dropped toward zero.
\<close>

theorem seconds_truncated:
  assumes "\<bar>us\<bar> < 2 ^ 52"
  shows "snd (expiry_branch SEC (PyTimedelta us)) = PyInt (truncated_units us 1000000)
         \<and> snd (expiry_branch UNIX_SEC (PyDatetime us)) = PyInt (truncated_units us 1000000)"
  using total_seconds_truncates [OF assms]
  by (simp add: expiry_branch_def timestamp_def total_seconds_def)

theorem seconds_truncated_witness:
  "\<bar>5999999 :: int\<bar> < 2 ^ 52
   \<and> snd (expiry_branch SEC (PyTimedelta 5999999)) = PyInt 5
   \<and> snd (expiry_branch UNIX_SEC (PyDatetime 5999999)) = PyInt 5"
  using seconds_truncated [of 5999999] by (simp add: truncated_units_def)

text \<open>
  A duration shorter than a second is converted to 0 under \<^verbatim>\<open>SEC\<close>, so the object
  stores no value and the keyword stands alone.
\<close>

theorem sec_subsecond_omitted:
  assumes "\<bar>us\<bar> < 1000000"
  shows "set_expiry_type_and_value SEC (PyTimedelta us)
           = Inr \<lparr>expiry_type = SEC, cmd_arg = ''EX'', value' = None\<rparr>"
proof -
  have "\<bar>us\<bar> < 2 ^ 52" using assms by simp
  then have "int_of_float (total_seconds us) = truncated_units us 1000000"
    by (rule total_seconds_truncates)
  also have "\<dots> = 0" using assms by (simp add: truncated_units_def)
  finally show ?thesis
    by (simp add: set_expiry_type_and_value_def isinstance_def issubclass_def expiry_branch_def)
qed

theorem sec_subsecond_omitted_witness:
  "\<bar>- 999999 :: int\<bar> < 1000000
   \<and> set_expiry_type_and_value SEC (PyTimedelta (- 999999))
       = Inr \<lparr>expiry_type = SEC, cmd_arg = ''EX'', value' = None\<rparr>"
  using sec_subsecond_omitted [of "- 999999"] by simp

text \<open>
  Beyond that range the rounding does reach the next integer: a \<^verbatim>\<open>timedelta\<close> one
  microsecond short of 17280000000 seconds (about 548 years) is converted to 17280000000.
\<close>

lemma sec_timedelta_548_years:
  "int_of_float (total_seconds 17279999999999999) = 17280000000
   \<and> truncated_units 17279999999999999 1000000 = 17279999999"
  by code_simp

text \<open>
  Claim C5. The claim is that a duration becomes its integer count of units, the fraction
  of a unit dropped. \<^verbatim>\<open>timedelta(seconds=1, milliseconds=1)\<close> is 1001 milliseconds
  exactly, with nothing to drop. Under \<^verbatim>\<open>MILLSEC\<close> the code computes
  \<^verbatim>\<open>int(value.total_seconds() * 1000)\<close> in binary64: \<^verbatim>\<open>total_seconds()\<close> is the float
  nearest to 1.001, its product with 1000 is rounded to the float just below 1001, and
  \<^verbatim>\<open>int\<close> cuts that to 1000. The token sent is \<^verbatim>\<open>"1000"\<close>, one millisecond short.
\<close>

theorem millsec_timedelta_1001ms:
  "total_seconds 1001000 = PyFloat 4508103226997866 (- 52)
   \<and> float_times (total_seconds 1001000) 1000 = PyFloat 8804889115230207 (- 43)
   \<and> map_sum id get_cmd_args (set_expiry_type_and_value MILLSEC (PyTimedelta 1001000))
       = Inr [''PX'', ''1000'']
   \<and> truncated_units 1001000 1000 = 1001"
  by code_simp

section \<open>Properties of the command facades\<close>

text \<open>
  Claim C2. For every key, value, optional condition, optional expiry and flag, \<^verbatim>\<open>set\<close>
  calls the adapter once, with \<^verbatim>\<open>RequestType.SetString\<close> and the arguments in this
  order: key, value, then \<^verbatim>\<open>XX\<close> or \<^verbatim>\<open>NX\<close> if a condition is given, then \<^verbatim>\<open>GET\<close> if
  the old value is asked for, then the tokens of the expiry if one is given; and it
  returns the adapter's result. The two conditions give different sequences.
\<close>

theorem set_token_order:
  "set_cmd execute_command key val conditional_set expiry return_old_value
     = execute_command SetString
         ([key, val]
          @ (case conditional_set of
               None \<Rightarrow> []
             | Some ONLY_IF_EXISTS \<Rightarrow> [''XX'']
             | Some ONLY_IF_DOES_NOT_EXIST \<Rightarrow> [''NX''])
          @ (if return_old_value then [''GET''] else [])
          @ (case expiry of None \<Rightarrow> [] | Some e \<Rightarrow> get_cmd_args e))
   \<and> set_cmd Pair key val (Some ONLY_IF_EXISTS) expiry return_old_value
       \<noteq> set_cmd Pair key val (Some ONLY_IF_DOES_NOT_EXIST) expiry return_old_value"
  by (simp add: set_cmd_def split: option.split ConditionalSet.split)

text \<open>
  Claim C1, as amended. \<^verbatim>\<open>ExpirySet(ExpiryType.SEC, 5)\<close> is the object with keyword
  \<^verbatim>\<open>EX\<close> and value text \<^verbatim>\<open>5\<close>, and with it
  \<^verbatim>\<open>set("k", "v", ConditionalSet.ONLY_IF_EXISTS, expiry, True)\<close> calls the adapter with
  \<^verbatim>\<open>RequestType.SetString\<close> and exactly the arguments
  \<^verbatim>\<open>["k", "v", "XX", "GET", "EX", "5"]\<close>. The command name is carried by the request
  type; it is not a token of the list.
\<close>

theorem set_example_dispatch:
  "set_expiry_type_and_value SEC (PyInt 5)
     = Inr \<lparr>expiry_type = SEC, cmd_arg = ''EX'', value' = Some ''5''\<rparr>
   \<and> set_cmd execute_command ''k'' ''v'' (Some ONLY_IF_EXISTS)
         (Some \<lparr>expiry_type = SEC, cmd_arg = ''EX'', value' = Some ''5''\<rparr>) True
       = execute_command SetString [''k'', ''v'', ''XX'', ''GET'', ''EX'', ''5'']"
  by (simp add: set_expiry_type_and_value_def isinstance_def issubclass_def expiry_branch_def
      str_int_def digits.simps set_cmd_def get_cmd_args_def)

text \<open>
  Claim C1, as stated, fails: with the adapter that returns the request it was given, the
  list is not \<^verbatim>\<open>["SET", "k", "v", "XX", "GET", "EX", "5"]\<close>.
\<close>

theorem set_example_has_no_SET_token:
  "set_cmd Pair ''k'' ''v'' (Some ONLY_IF_EXISTS)
       (Some \<lparr>expiry_type = SEC, cmd_arg = ''EX'', value' = Some ''5''\<rparr>) True
     \<noteq> (SetString, [''SET'', ''k'', ''v'', ''XX'', ''GET'', ''EX'', ''5''])"
  by (simp add: set_cmd_def get_cmd_args_def)

text \<open>
  Claim C9. For every key, \<^verbatim>\<open>get\<close> calls the adapter with \<^verbatim>\<open>RequestType.GetString\<close>
  and the one-element list of the key, and returns the adapter's result unchanged. With
  results of type \<^verbatim>\<open>Union[str, None]\<close>: an adapter that answers \<^verbatim>\<open>None\<close> makes
  \<^verbatim>\<open>get\<close> return \<^verbatim>\<open>None\<close>, one that answers the empty string makes it return the
  empty string, and the two results differ.
\<close>

theorem get_dispatch:
  "get execute_command key = execute_command GetString [key]
   \<and> get (\<lambda>request_type args. (None :: string option)) key = None
   \<and> get (\<lambda>request_type args. Some []) key = Some []
   \<and> get (\<lambda>request_type args. (None :: string option)) key
       \<noteq> get (\<lambda>request_type args. Some []) key"
  by (simp add: get_def)

text \<open>
  Claim C8. For every list of tokens, \<^verbatim>\<open>custom_command\<close> calls the adapter with
  \<^verbatim>\<open>RequestType.CustomCommand\<close> and that very list, whatever it holds, and returns the
  adapter's result as it is; the adapter that returns its request shows the list it got.
\<close>

theorem custom_command_passthrough:
  "custom_command execute_command command_args = execute_command CustomCommand command_args
   \<and> custom_command Pair command_args = (CustomCommand, command_args)"
  by (simp add: custom_command_def)

section \<open>Properties of the index commands\<close>

text \<open>The loop over the schema appends the tokens of the fields in their order.\<close>

lemma extend_fields_concat:
  "extend_fields args schema = args @ concat (map Field_toArgs schema)"
  by (induction schema arbitrary: args) simp_all

text \<open>
  Claim C6. For every index name, schema and optional options object, \<^verbatim>\<open>create\<close> passes
  to the client's \<^verbatim>\<open>custom_command\<close> the command keyword, the index name, the tokens of
  the options if there are options, and then, only for a schema that is not empty, the
  \<^verbatim>\<open>SCHEMA\<close> keyword followed by the tokens of every field in the order of the schema.
  For the empty schema the list ends after the tokens of the options.
\<close>

theorem create_tokens:
  "create client_custom_command indexName schema options
     = client_custom_command
         ([FT_CREATE, indexName]
          @ (case options of None \<Rightarrow> [] | Some opts \<Rightarrow> FtCreateOptions_toArgs opts)
          @ (if schema = [] then [] else SCHEMA # concat (map Field_toArgs schema)))
   \<and> create client_custom_command indexName [] options
       = client_custom_command
           ([FT_CREATE, indexName]
            @ (case options of None \<Rightarrow> [] | Some opts \<Rightarrow> FtCreateOptions_toArgs opts))"
  by (simp add: create_def extend_fields_concat split: option.split)

text \<open>
  Claim C7. \<^verbatim>\<open>dropindex\<close> for the index \<^verbatim>\<open>idx\<close> passes exactly
  \<^verbatim>\<open>["FT.DROPINDEX", "idx"]\<close>; for every alias and index name, \<^verbatim>\<open>aliasadd\<close> passes
  the keyword, the alias and the index name, \<^verbatim>\<open>aliasdel\<close> the keyword and the alias,
  \<^verbatim>\<open>aliasupdate\<close> the keyword, the alias and the index name, and nothing more.
\<close>

theorem fixed_shape_commands:
  "dropindex client_custom_command (Str ''idx'')
     = client_custom_command [Str ''FT.DROPINDEX'', Str ''idx'']
   \<and> dropindex client_custom_command indexName = client_custom_command [FT_DROPINDEX, indexName]
   \<and> aliasadd client_custom_command alias indexName
       = client_custom_command [FT_ALIASADD, alias, indexName]
   \<and> aliasdel client_custom_command alias = client_custom_command [FT_ALIASDEL, alias]
   \<and> aliasupdate client_custom_command alias indexName
       = client_custom_command [FT_ALIASUPDATE, alias, indexName]"
  by (simp add: dropindex_def aliasadd_def aliasdel_def aliasupdate_def FT_DROPINDEX_def)

end
